theory Spec2Isabelle
  imports Complex_Main "HOL-Library.Char_ord" "HOL-Library.List_Lexorder"
begin

section \<open>Missing-data pattern statistics (autoimpute/utils/patterns.py)\<close>

text \<open>
  The module computes statistics of the missingness of a tabular dataset: the four
  pair-count matrices (\<open>md_pairs\<close>), the table of row patterns (\<open>md_pattern\<close>), the
  coefficients \<open>inbound\<close>, \<open>outbound\<close>, \<open>influx\<close>, \<open>outflux\<close>, and the report \<open>flux\<close>.

  Conventions of the embedding.
  \<^item> A dataset is a number of columns and a list of rows of cells; a cell is \<open>None\<close>
    when it is missing. A numpy array or a pandas frame is rectangular: \<open>wf_data\<close>
    says so, and the number of columns exists also when there is no row.
  \<^item> Counts are Python/numpy integers, modelled by \<open>int\<close> (no overflow at the sizes
    of a dataset).
  \<^item> A float is \<open>NaN\<close>, an infinity, or a finite value. Finite values are modelled by
    exact rationals: rounding is left out and the two zeros are one value.
  \<^item> An exception is the left summand of the result.
\<close>

subsection \<open>Data\<close>

datatype error = DimensionError | ValueError

text \<open>A column label: an integer or a string.\<close>

datatype label = Pos nat | Name string

datatype fl = NaN | PInf | NInf | Fin rat

record 'a dataset =
  ncols :: nat
  cells :: "'a option list list"

definition wf_data :: "'a dataset \<Rightarrow> bool" where
  "wf_data d = list_all (\<lambda>row. length row = ncols d) (cells d)"

text \<open>
  A labelled table, as \<open>pd.DataFrame\<close> builds it: row labels, column labels and the
  values by row. \<open>None\<close> for the labels is the positional default (a bare array, or
  the default range index of a frame).
\<close>

record 'a table =
  index :: "label list option"
  columns :: "label list option"
  vals :: "'a list list"

text \<open>The dictionary with the keys \<open>rr\<close>, \<open>rm\<close>, \<open>mr\<close>, \<open>mm\<close> that \<open>md_pairs\<close> returns.\<close>

record 't pairs =
  rr :: 't
  rm :: 't
  mr :: 't
  mm :: 't

definition bind_err :: "error + 'a \<Rightarrow> ('a \<Rightarrow> error + 'b) \<Rightarrow> error + 'b" where
  "bind_err m f = (case m of Inl e \<Rightarrow> Inl e | Inr x \<Rightarrow> f x)"

subsection \<open>Floating-point operations used by the module\<close>

definition of_count :: "int \<Rightarrow> fl" where
  "of_count i = Fin (of_int i)"

text \<open>
  Division under \<open>np.errstate(divide="ignore", invalid="ignore")\<close>: no exception;
  \<open>0/0\<close> is NaN and \<open>x/0\<close> is an infinity.
\<close>

fun fdiv :: "fl \<Rightarrow> fl \<Rightarrow> fl" where
  "fdiv NaN _ = NaN"
| "fdiv _ NaN = NaN"
| "fdiv (Fin a) (Fin b) =
     (if b = 0 then (if a = 0 then NaN else if 0 < a then PInf else NInf)
      else Fin (a / b))"
| "fdiv (Fin a) PInf = Fin 0"
| "fdiv (Fin a) NInf = Fin 0"
| "fdiv PInf (Fin b) = (if 0 \<le> b then PInf else NInf)"
| "fdiv NInf (Fin b) = (if 0 \<le> b then NInf else PInf)"
| "fdiv PInf PInf = NaN"
| "fdiv PInf NInf = NaN"
| "fdiv NInf PInf = NaN"
| "fdiv NInf NInf = NaN"

fun fadd :: "fl \<Rightarrow> fl \<Rightarrow> fl" where
  "fadd NaN _ = NaN"
| "fadd _ NaN = NaN"
| "fadd (Fin a) (Fin b) = Fin (a + b)"
| "fadd (Fin a) PInf = PInf"
| "fadd (Fin a) NInf = NInf"
| "fadd PInf (Fin b) = PInf"
| "fadd NInf (Fin b) = NInf"
| "fadd PInf PInf = PInf"
| "fadd NInf NInf = NInf"
| "fadd PInf NInf = NaN"
| "fadd NInf PInf = NaN"

text \<open>\<open>np.nansum\<close> of a row of floats: NaN counts as zero, the rest is summed.\<close>

definition nansum :: "fl list \<Rightarrow> fl" where
  "nansum xs = foldl fadd (Fin 0) (map (\<lambda>x. if x = NaN then Fin 0 else x) xs)"

subsection \<open>Arrays\<close>

text \<open>
  A matrix is the list of its rows. numpy keeps the shape beside the data; here the
  number of columns is passed where the list of rows does not determine it.
\<close>

definition transpose_m :: "nat \<Rightarrow> 'a list list \<Rightarrow> 'a list list" where
  "transpose_m p m = map (\<lambda>j. map (\<lambda>row. row ! j) m) [0..<p]"

text \<open>\<open>np.matmul a b\<close>, where \<open>b\<close> has \<open>q\<close> columns.\<close>

definition matmul :: "nat \<Rightarrow> int list list \<Rightarrow> int list list \<Rightarrow> int list list" where
  "matmul q a b =
     map (\<lambda>arow. map (\<lambda>k. sum_list (map (\<lambda>(x, brow). x * brow ! k) (zip arow b))) [0..<q]) a"

text \<open>
  \<open>np.apply_along_axis(func, 1, arr)\<close>: the function on every row. numpy raises
  \<open>ValueError\<close> when the array has no row.
\<close>

definition apply_along_axis1 :: "('a list \<Rightarrow> 'b) \<Rightarrow> 'a list list \<Rightarrow> error + 'b list" where
  "apply_along_axis1 func arr = (if arr = [] then Inl ValueError else Inr (map func arr))"

text \<open>\<open>np.logical_not(arr)*1\<close> on a boolean and on an integer array.\<close>

definition int_ln_b :: "bool list list \<Rightarrow> int list list" where
  "int_ln_b arr = map (map (\<lambda>b. if b then 0 else 1)) arr"

definition int_ln :: "int list list \<Rightarrow> int list list" where
  "int_ln arr = map (map (\<lambda>x. if x = 0 then 1 else 0)) arr"

text \<open>Element-wise operations on two tables of the same labels.\<close>

definition tadd :: "int table \<Rightarrow> int table \<Rightarrow> int table" where
  "tadd a b = a\<lparr>vals := map (\<lambda>(ra, rb). map (\<lambda>(x, y). x + y) (zip ra rb)) (zip (vals a) (vals b))\<rparr>"

definition tdiv :: "int table \<Rightarrow> int table \<Rightarrow> fl table" where
  "tdiv a b =
     \<lparr>index = index a, columns = columns a,
      vals = map (\<lambda>(ra, rb). map (\<lambda>(x, y). fdiv (of_count x) (of_count y)) (zip ra rb))
               (zip (vals a) (vals b))\<rparr>"

text \<open>\<open>np.nansum(t, axis=1)\<close> of an integer table: the row sums.\<close>

definition nansum_rows :: "int table \<Rightarrow> int list" where
  "nansum_rows t = map sum_list (vals t)"

subsection \<open>The collaborators of the module\<close>

text \<open>
  Modelled from the spec: the dimension validator \<open>check_dimensions\<close> (module
  \<open>checks\<close>), a decorator. It fails with \<open>DimensionError\<close> when the dataset has fewer
  than two columns or when labels are supplied and their number is not the number of
  columns; otherwise it calls the function on the unchanged dataset.
\<close>

definition check_dimensions ::
    "('a dataset \<Rightarrow> label list option \<Rightarrow> error + 'b) \<Rightarrow> 'a dataset \<Rightarrow> label list option \<Rightarrow> error + 'b" where
  "check_dimensions func d cols =
     (if ncols d < 2 then Inl DimensionError
      else if (case cols of None \<Rightarrow> False | Some cs \<Rightarrow> length cs \<noteq> ncols d)
        then Inl DimensionError
      else func d cols)"

text \<open>
  Modelled from the spec: the missingness extractor \<open>_is_null\<close> (module \<open>helpers\<close>).
  It returns the boolean matrix of the dataset's shape, true where the cell is missing.
\<close>

definition priv_is_null :: "'a dataset \<Rightarrow> bool list list" where
  "priv_is_null d = map (map (\<lambda>c. case c of None \<Rightarrow> True | Some _ \<Rightarrow> False)) (cells d)"

text \<open>
  Modelled from the spec: the result formatter \<open>_pattern_output\<close> (module \<open>helpers\<close>).
  It attaches the labels to the values, which it does not change: on both axes in the
  square layout, on the columns in the flat layout; without labels the values stay
  positional. The frame constructor refuses labels whose number is not the number of
  columns (\<open>p\<close>, the shape of the values).
\<close>

definition priv_pattern_output ::
    "nat \<Rightarrow> 'a list list \<Rightarrow> label list option \<Rightarrow> bool \<Rightarrow> error + 'a table" where
  "priv_pattern_output p v cols square =
     (case cols of
        None \<Rightarrow> Inr \<lparr>index = None, columns = None, vals = v\<rparr>
      | Some cs \<Rightarrow>
          if length cs \<noteq> p \<or> (square \<and> length cs \<noteq> length v) then Inl ValueError
          else Inr \<lparr>index = (if square then Some cs else None), columns = Some cs, vals = v\<rparr>)"

subsection \<open>Pair statistics\<close>

definition md_pairs_body :: "'a dataset \<Rightarrow> label list option \<Rightarrow> error + int table pairs" where
  "md_pairs_body d cols =
     (let p = ncols d;
          r = int_ln_b (priv_is_null d);
          rr_m = matmul p (transpose_m p r) r;
          mm_m = matmul p (transpose_m p (int_ln r)) (int_ln r);
          mr_m = matmul p (transpose_m p (int_ln r)) r;
          rm_m = matmul p (transpose_m p r) (int_ln r)
      in bind_err (priv_pattern_output p rr_m cols True) (\<lambda>t_rr.
         bind_err (priv_pattern_output p rm_m cols True) (\<lambda>t_rm.
         bind_err (priv_pattern_output p mr_m cols True) (\<lambda>t_mr.
         bind_err (priv_pattern_output p mm_m cols True) (\<lambda>t_mm.
           Inr \<lparr>rr = t_rr, rm = t_rm, mr = t_mr, mm = t_mm\<rparr>)))))"

definition md_pairs :: "'a dataset \<Rightarrow> label list option \<Rightarrow> error + int table pairs" where
  "md_pairs d cols = check_dimensions md_pairs_body d cols"

subsection \<open>Row patterns\<close>

text \<open>\<open>np.sum(r, axis=0)\<close> of a boolean matrix with \<open>p\<close> columns: the column counts.\<close>

definition sum_axis0 :: "nat \<Rightarrow> bool list list \<Rightarrow> int list" where
  "sum_axis0 p r = map (\<lambda>j. sum_list (map (\<lambda>row. if row ! j then 1 else 0) r)) [0..<p]"

text \<open>
  \<open>np.argsort\<close>: the positions in ascending order of their keys. numpy's default sort
  keeps equal keys in their original order on short arrays only and fixes no order for
  them on longer ones; here they stay in their original order. The properties below
  use that the result is a permutation of the positions, and never the order of equal
  keys.
\<close>

definition argsort :: "('k::linorder) list \<Rightarrow> nat list" where
  "argsort ks = map snd (sort_key fst (zip ks [0..<length ks]))"

text \<open>\<open>r[:, order]\<close> and \<open>r[order, :]\<close>.\<close>

definition take_cols :: "nat list \<Rightarrow> 'a list list \<Rightarrow> 'a list list" where
  "take_cols order r = map (\<lambda>row. map (\<lambda>j. row ! j) order) r"

definition take_rows :: "nat list \<Rightarrow> 'a list list \<Rightarrow> 'a list list" where
  "take_rows order r = map (\<lambda>i. r ! i) order"

text \<open>\<open>r*1\<close> on a boolean matrix.\<close>

definition times1 :: "bool list list \<Rightarrow> int list list" where
  "times1 r = map (map (\<lambda>b. if b then 1 else 0)) r"

text \<open>Python's \<open>str\<close> on an integer.\<close>

definition digit_char :: "nat \<Rightarrow> char" where
  "digit_char n = char_of (of_char (CHR ''0'') + n)"

function str_nat :: "nat \<Rightarrow> string" where
  "str_nat n = (if n < 10 then [digit_char n] else str_nat (n div 10) @ [digit_char (n mod 10)])"
  by pat_completeness auto
termination
  by (relation "measure (\<lambda>n. n)") auto

definition str_int :: "int \<Rightarrow> string" where
  "str_int i = (if i < 0 then CHR ''-'' # str_nat (nat (- i)) else str_nat (nat i))"

definition num_string :: "int list \<Rightarrow> string" where
  "num_string row = concat (map str_int row)"

text \<open>
  \<open>df.groupby(cols).size().reset_index()\<close> on a frame whose columns are exactly
  \<open>cols\<close>: one row per distinct row of the frame, in ascending (lexicographic) order
  of the rows, with the number of rows equal to it.
\<close>

definition groupby_size :: "int list list \<Rightarrow> (int list \<times> int) list" where
  "groupby_size rows = map (\<lambda>k. (k, int (count_list rows k))) (sort (remdups rows))"

text \<open>
  The frame that \<open>md_pattern\<close> works on after grouping, as the list of its labelled
  columns. The statements of the source address its columns by label:
  \<^item> \<open>df[ls]\<close> is the frame of the columns under the labels \<open>ls\<close>, in their order;
  \<^item> \<open>df[l] = c\<close> replaces the column under \<open>l\<close>, or adds it at the end when the frame
    has no column of that label;
  \<^item> \<open>df[ls] = value\<close> runs \<open>df[k1] = value[k2]\<close> over the keys \<open>ls\<close> paired with the columns
    of \<open>value\<close>.
  These definitions are pandas on a frame whose labels are distinct; the result of
  \<open>md_pattern\<close> depends on them for such frames only.
\<close>

type_synonym frame = "(label \<times> int list) list"

definition frame_of_rows :: "label list \<Rightarrow> int list list \<Rightarrow> frame" where
  "frame_of_rows ls rows = zip ls (map (\<lambda>j. map (\<lambda>row. row ! j) rows) [0..<length ls])"

definition frame_col :: "frame \<Rightarrow> label \<Rightarrow> int list" where
  "frame_col df l = (case map_of df l of Some c \<Rightarrow> c | None \<Rightarrow> [])"

definition frame_get :: "frame \<Rightarrow> label list \<Rightarrow> frame" where
  "frame_get df ls = map (\<lambda>l. (l, frame_col df l)) ls"

definition frame_set :: "frame \<Rightarrow> label \<Rightarrow> int list \<Rightarrow> frame" where
  "frame_set df l c =
     (if l \<in> set (map fst df) then map (\<lambda>(k, v). if k = l then (k, c) else (k, v)) df
      else df @ [(l, c)])"

definition frame_set_many :: "frame \<Rightarrow> label list \<Rightarrow> frame \<Rightarrow> frame" where
  "frame_set_many df ls value = foldl (\<lambda>df' (k1, (k2, c)). frame_set df' k1 c) df (zip ls value)"

text \<open>\<open>df.sum(axis=1)\<close> and the values by row, for a frame of \<open>m\<close> rows.\<close>

definition sum_axis1 :: "nat \<Rightarrow> frame \<Rightarrow> int list" where
  "sum_axis1 m df = map (\<lambda>i. (\<Sum>(k, c)\<leftarrow>df. c ! i)) [0..<m]"

definition frame_rows :: "nat \<Rightarrow> frame \<Rightarrow> int list list" where
  "frame_rows m df = map (\<lambda>i. map (\<lambda>(k, c). c ! i) df) [0..<m]"

text \<open>\<open>df.apply(np.logical_not)*1\<close>.\<close>

definition frame_not :: "frame \<Rightarrow> frame" where
  "frame_not df = map (\<lambda>(k, c). (k, map (\<lambda>x. if x = 0 then 1 else 0) c)) df"

text \<open>
  The body of \<open>md_pattern\<close>, statement by statement. Three library calls raise
  \<open>ValueError\<close>:
  \<^item> \<open>groupby(cols)\<close>, when a label occurs twice in \<open>cols\<close>;
  \<^item> \<open>reset_index()\<close>, when the integer 0 is a label: the sizes get the column name 0,
    which is then already a column of the frame;
  \<^item> the assignment \<open>sort_r_df[cols] = ...\<close>, when \<open>count\<close> is a label: after
    \<open>sort_r_df.columns = cols + ["count"]\<close> two columns have that label, so
    \<open>sort_r_df[cols]\<close> has more columns than \<open>cols\<close> has keys.
  With the label \<open>nmis\<close> in \<open>cols\<close> nothing raises: \<open>sort_r_df["nmis"] = ...\<close> overwrites
  the column of that variable, and the final selection shows it twice.
\<close>

definition md_pattern_body :: "'a dataset \<Rightarrow> label list \<Rightarrow> error + int table" where
  "md_pattern_body d cols =
     (let p = ncols d;
          r0 = priv_is_null d;
          nmis = sum_axis0 p r0;
          r = take_cols (argsort nmis) r0
      in bind_err (apply_along_axis1 num_string (times1 r)) (\<lambda>pat.
           let sort_r = times1 (take_rows (argsort pat) r)
           in bind_err (priv_pattern_output p sort_r (Some cols) False) (\<lambda>sort_r_df.
                if \<not> distinct cols then Inl ValueError
                else
                  let grouped = groupby_size (vals sort_r_df);
                      m = length grouped
                  in if Pos 0 \<in> set cols then Inl ValueError
                     else
                       let df = frame_of_rows (cols @ [Name ''count''])
                                  (map (\<lambda>(k, c). k @ [c]) grouped);
                           df1 = frame_set df (Name ''nmis'') (sum_axis1 m (frame_get df cols))
                       in if Name ''count'' \<in> set cols then Inl ValueError
                          else
                            let df2 = frame_set_many df1 cols (frame_not (frame_get df1 cols));
                                out = frame_get df2 ([Name ''count''] @ cols @ [Name ''nmis''])
                            in Inr \<lparr>index = None, columns = Some (map fst out),
                                    vals = frame_rows m out\<rparr>)))"

definition md_pattern :: "'a dataset \<Rightarrow> label list \<Rightarrow> error + int table" where
  "md_pattern d cols = check_dimensions (\<lambda>d' _. md_pattern_body d' cols) d (Some cols)"



subsection \<open>Connectivity coefficients\<close>

definition priv_inbound :: "int table pairs \<Rightarrow> fl table" where
  "priv_inbound prs = tdiv (mr prs) (tadd (mr prs) (mm prs))"

definition priv_outbound :: "int table pairs \<Rightarrow> fl table" where
  "priv_outbound prs = tdiv (rm prs) (tadd (rm prs) (rr prs))"

definition priv_influx :: "int table pairs \<Rightarrow> fl list" where
  "priv_influx prs =
     (let num = nansum_rows (mr prs);
          denom = nansum_rows (tadd (mr prs) (rr prs))
      in map (\<lambda>(x, y). fdiv (of_count x) (of_count y)) (zip num denom))"

definition priv_outflux :: "int table pairs \<Rightarrow> fl list" where
  "priv_outflux prs =
     (let num = nansum_rows (rm prs);
          denom = nansum_rows (tadd (rm prs) (mm prs))
      in map (\<lambda>(x, y). fdiv (of_count x) (of_count y)) (zip num denom))"

definition get_stat_for :: "(int table pairs \<Rightarrow> 's) \<Rightarrow> 'a dataset \<Rightarrow> error + 's" where
  "get_stat_for func d = bind_err (md_pairs d None) (\<lambda>prs. Inr (func prs))"

definition inbound :: "'a dataset \<Rightarrow> label list option \<Rightarrow> error + fl table" where
  "inbound d cols =
     bind_err (get_stat_for priv_inbound d) (\<lambda>inbound_coeff.
       priv_pattern_output (ncols d) (vals inbound_coeff) cols True)"

definition outbound :: "'a dataset \<Rightarrow> label list option \<Rightarrow> error + fl table" where
  "outbound d cols =
     bind_err (get_stat_for priv_outbound d) (\<lambda>outbound_coeff.
       priv_pattern_output (ncols d) (vals outbound_coeff) cols True)"

definition influx :: "'a dataset \<Rightarrow> label list option \<Rightarrow> error + fl table" where
  "influx d cols =
     bind_err (get_stat_for priv_influx d) (\<lambda>influx_coeff.
       priv_pattern_output (ncols d) [influx_coeff] cols False)"

definition outflux :: "'a dataset \<Rightarrow> label list option \<Rightarrow> error + fl table" where
  "outflux d cols =
     bind_err (get_stat_for priv_outflux d) (\<lambda>outflux_coeff.
       priv_pattern_output (ncols d) [outflux_coeff] cols False)"

subsection \<open>The flux report\<close>

definition row_mean :: "fl list \<Rightarrow> fl" where
  "row_mean row = fdiv (nansum row) (of_count (int (length row) - 1))"

text \<open>\<open>np.mean(b, axis=0)\<close> of a boolean matrix with \<open>p\<close> columns.\<close>

definition mean_axis0 :: "nat \<Rightarrow> bool list list \<Rightarrow> fl list" where
  "mean_axis0 p b =
     map (\<lambda>j. fdiv (of_count (sum_list (map (\<lambda>row. if row ! j then 1 else 0) b)))
                   (of_count (int (length b)))) [0..<p]"

text \<open>
  \<open>pd.DataFrame(res, index=cols)\<close> for a dictionary of columns: the constructor
  raises \<open>ValueError\<close> unless every column has as many values as there are row labels.
\<close>

definition data_frame :: "(string \<times> 'a list) list \<Rightarrow> label list \<Rightarrow> error + 'a table" where
  "data_frame res cols =
     (if list_all (\<lambda>(k, c). length c = length cols) res
      then Inr \<lparr>index = Some cols, columns = Some (map (\<lambda>(k, c). Name k) res),
                vals = map (\<lambda>i. map (\<lambda>(k, c). c ! i) res) [0..<length cols]\<rparr>
      else Inl ValueError)"

definition flux :: "'a dataset \<Rightarrow> label list \<Rightarrow> error + fl table" where
  "flux d cols =
     bind_err (md_pairs d None) (\<lambda>prs.
       let pobs = mean_axis0 (ncols d) (map (map Not) (priv_is_null d))
       in bind_err (apply_along_axis1 row_mean (vals (priv_inbound prs))) (\<lambda>ainb.
          bind_err (apply_along_axis1 row_mean (vals (priv_outbound prs))) (\<lambda>aout.
            let inf = priv_influx prs;
                outf = priv_outflux prs;
                res = [(''pobs'', pobs), (''influx'', inf), (''outflux'', outf),
                       (''ainb'', ainb), (''aout'', aout)]
            in data_frame res cols)))"

subsection \<open>Notions used to state the properties\<close>

text \<open>The indicators of an observed and of a missing cell, as integers.\<close>

definition obs_i :: "'a option \<Rightarrow> int" where
  "obs_i c = (case c of None \<Rightarrow> 0 | Some _ \<Rightarrow> 1)"

definition mis_i :: "'a option \<Rightarrow> int" where
  "mis_i c = (case c of None \<Rightarrow> 1 | Some _ \<Rightarrow> 0)"

text \<open>The number of rows that satisfy one condition in column \<open>j\<close> and one in column \<open>k\<close>.\<close>

definition pair_count ::
    "('a option \<Rightarrow> int) \<Rightarrow> ('a option \<Rightarrow> int) \<Rightarrow> 'a option list list \<Rightarrow> nat \<Rightarrow> nat \<Rightarrow> int" where
  "pair_count f g rows j k = (\<Sum>row\<leftarrow>rows. f (row ! j) * g (row ! k))"

definition count_matrix ::
    "('a option \<Rightarrow> int) \<Rightarrow> ('a option \<Rightarrow> int) \<Rightarrow> 'a dataset \<Rightarrow> int list list" where
  "count_matrix f g d =
     map (\<lambda>j. map (\<lambda>k. pair_count f g (cells d) j k) [0..<ncols d]) [0..<ncols d]"

text \<open>Labels, when given, are one per column.\<close>

definition labels_ok :: "'a dataset \<Rightarrow> label list option \<Rightarrow> bool" where
  "labels_ok d cols = (case cols of None \<Rightarrow> True | Some cs \<Rightarrow> length cs = ncols d)"

text \<open>
  The dataset of the specification's scenario: four rows, three columns; the first
  column is observed everywhere, the second is missing in two rows, the third in one.
\<close>

definition ex_data :: "nat dataset" where
  "ex_data = \<lparr>ncols = 3, cells = [[Some 1, Some 1, Some 1], [Some 1, None, Some 1],
                                  [Some 1, Some 1, None], [Some 1, None, Some 1]]\<rparr>"

text \<open>The matrix with the entry \<open>F j k\<close> at \<open>(j, k)\<close>.\<close>

definition tabulate2 :: "nat \<Rightarrow> (nat \<Rightarrow> nat \<Rightarrow> 'a) \<Rightarrow> 'a list list" where
  "tabulate2 p F = map (\<lambda>j. map (\<lambda>k. F j k) [0..<p]) [0..<p]"

text \<open>A dataset of one column.\<close>

definition one_col :: "nat dataset" where
  "one_col = \<lparr>ncols = 1, cells = [[Some 5], [None]]\<rparr>"

text \<open>The coefficients written out on the counts of a list of rows.\<close>

definition inbound_at :: "'a option list list \<Rightarrow> nat \<Rightarrow> nat \<Rightarrow> fl" where
  "inbound_at rows j k = fdiv (of_count (pair_count mis_i obs_i rows j k))
       (of_count (pair_count mis_i obs_i rows j k + pair_count mis_i mis_i rows j k))"

definition outbound_at :: "'a option list list \<Rightarrow> nat \<Rightarrow> nat \<Rightarrow> fl" where
  "outbound_at rows j k = fdiv (of_count (pair_count obs_i mis_i rows j k))
       (of_count (pair_count obs_i mis_i rows j k + pair_count obs_i obs_i rows j k))"

definition influx_at :: "nat \<Rightarrow> 'a option list list \<Rightarrow> nat \<Rightarrow> fl" where
  "influx_at p rows j = fdiv (of_count (\<Sum>k\<leftarrow>[0..<p]. pair_count mis_i obs_i rows j k))
       (of_count (\<Sum>k\<leftarrow>[0..<p]. pair_count mis_i obs_i rows j k + pair_count obs_i obs_i rows j k))"

definition outflux_at :: "nat \<Rightarrow> 'a option list list \<Rightarrow> nat \<Rightarrow> fl" where
  "outflux_at p rows j = fdiv (of_count (\<Sum>k\<leftarrow>[0..<p]. pair_count obs_i mis_i rows j k))
       (of_count (\<Sum>k\<leftarrow>[0..<p]. pair_count obs_i mis_i rows j k + pair_count mis_i mis_i rows j k))"

text \<open>The value of a finite float, and zero for the others.\<close>

definition fin_or_zero :: "fl \<Rightarrow> rat" where
  "fin_or_zero x = (case x of Fin q \<Rightarrow> q | _ \<Rightarrow> 0)"

text \<open>NaN, or a finite value of the closed interval from 0 to 1.\<close>

definition unit_or_nan :: "fl \<Rightarrow> bool" where
  "unit_or_nan x = (case x of NaN \<Rightarrow> True | Fin q \<Rightarrow> 0 \<le> q \<and> q \<le> 1 | _ \<Rightarrow> False)"

text \<open>Datasets without a missing cell, and without an observed one.\<close>

definition fully_observed :: "'a dataset \<Rightarrow> bool" where
  "fully_observed d = list_all (list_all (\<lambda>c. c \<noteq> None)) (cells d)"

definition fully_missing :: "'a dataset \<Rightarrow> bool" where
  "fully_missing d = list_all (list_all (\<lambda>c. c = None)) (cells d)"

text \<open>One fully observed and one fully missing row of two columns.\<close>

definition full2 :: "nat dataset" where
  "full2 = \<lparr>ncols = 2, cells = [[Some 1, Some 2]]\<rparr>"

definition miss2 :: "nat dataset" where
  "miss2 = \<lparr>ncols = 2, cells = [[None, None]]\<rparr>"

text \<open>The proportion of the rows in which column \<open>j\<close> is observed.\<close>

definition pobs_at :: "'a option list list \<Rightarrow> nat \<Rightarrow> fl" where
  "pobs_at rows j = fdiv (of_count (\<Sum>row\<leftarrow>rows. obs_i (row ! j))) (of_count (int (length rows)))"



text \<open>A dataset of two columns and no row, and one row whose first cell is missing.\<close>

definition no_rows :: "nat dataset" where
  "no_rows = \<lparr>ncols = 2, cells = []\<rparr>"

definition first_missing :: "nat dataset" where
  "first_missing = \<lparr>ncols = 2, cells = [[None, Some 1]]\<rparr>"

section \<open>Properties\<close>

subsection \<open>Pair counts\<close>


lemma zip_map_same: "zip (map f xs) (map g xs) = map (\<lambda>x. (f x, g x)) xs"
  by (induction xs) auto

lemma matmul_T_maps:
  assumes "\<forall>row\<in>set b. length row = p"
  shows "matmul p (transpose_m p (map (map f) b)) (map (map g) b)
       = map (\<lambda>j. map (\<lambda>k. (\<Sum>row\<leftarrow>b. f (row ! j) * g (row ! k))) [0..<p]) [0..<p]"
proof -
  have "(\<Sum>(x, brow)\<leftarrow>zip (map (\<lambda>row. row ! j) (map (map f) b)) (map (map g) b). x * brow ! k)
       = (\<Sum>row\<leftarrow>b. f (row ! j) * g (row ! k))" if "j < p" "k < p" for j k
  proof -
    have "zip (map (\<lambda>row. row ! j) (map (map f) b)) (map (map g) b)
        = map (\<lambda>row. (map f row ! j, map g row)) b"
      by (simp add: zip_map_same[symmetric] comp_def)
    then show ?thesis using assms that
      by (simp add: comp_def cong: map_cong)
  qed
  then show ?thesis
    by (simp add: matmul_def transpose_m_def comp_def)
qed

lemma obs_matrix: "int_ln_b (priv_is_null d) = map (map obs_i) (cells d)"
  by (simp add: int_ln_b_def priv_is_null_def obs_i_def comp_def split: option.split)

lemma mis_matrix: "int_ln (map (map obs_i) rows) = map (map mis_i) rows"
  by (simp add: int_ln_def mis_i_def obs_i_def comp_def split: option.split)

lemma md_pairs_body_vals:
  assumes "wf_data d" "case cols of None \<Rightarrow> True | Some cs \<Rightarrow> length cs = ncols d"
  shows "\<exists>P. md_pairs_body d cols = Inr P
     \<and> vals (rr P) = count_matrix obs_i obs_i d
     \<and> vals (rm P) = count_matrix obs_i mis_i d
     \<and> vals (mr P) = count_matrix mis_i obs_i d
     \<and> vals (mm P) = count_matrix mis_i mis_i d"
proof -
  have wf: "\<forall>row\<in>set (cells d). length row = ncols d"
    using assms(1) by (simp add: wf_data_def list_all_iff)
  show ?thesis
    using assms(2)
    by (cases cols)
       (simp_all add: md_pairs_body_def Let_def obs_matrix mis_matrix matmul_T_maps[OF wf]
          priv_pattern_output_def bind_err_def count_matrix_def pair_count_def)
qed


lemma md_pairs_vals:
  assumes "wf_data d" "2 \<le> ncols d" "labels_ok d cols"
  shows "\<exists>P. md_pairs d cols = Inr P
     \<and> vals (rr P) = count_matrix obs_i obs_i d
     \<and> vals (rm P) = count_matrix obs_i mis_i d
     \<and> vals (mr P) = count_matrix mis_i obs_i d
     \<and> vals (mm P) = count_matrix mis_i mis_i d"
proof -
  have "md_pairs d cols = md_pairs_body d cols"
    using assms(2,3) by (simp add: md_pairs_def check_dimensions_def labels_ok_def split: option.splits)
  then show ?thesis
    using md_pairs_body_vals[of d cols] assms(1,3) by (simp add: labels_ok_def)
qed

lemma count_matrix_nth:
  "j < ncols d \<Longrightarrow> k < ncols d \<Longrightarrow> count_matrix f g d ! j ! k = pair_count f g (cells d) j k"
  by (simp add: count_matrix_def)

lemma pair_count_total:
  "pair_count obs_i obs_i rows j k + pair_count obs_i mis_i rows j k
   + pair_count mis_i obs_i rows j k + pair_count mis_i mis_i rows j k = int (length rows)"
  by (induction rows) (simp_all add: pair_count_def obs_i_def mis_i_def split: option.split)

lemma pair_count_swap: "pair_count f g rows j k = pair_count g f rows k j"
  by (simp add: pair_count_def mult.commute)

lemma count_matrix_transpose:
  "transpose_m (ncols d) (count_matrix f g d) = count_matrix g f d"
proof -
  have "map (\<lambda>row. row ! j) (count_matrix f g d) = map (\<lambda>k. pair_count g f (cells d) j k) [0..<ncols d]"
    if "j < ncols d" for j
    using that by (simp add: count_matrix_def comp_def pair_count_swap[of f g])
  then show ?thesis
    by (simp add: transpose_m_def) (simp add: count_matrix_def)
qed

text \<open>
  Claim C1. For a dataset of \<open>n\<close> rows and at least two columns, \<open>md_pairs\<close> returns four
  matrices whose entries at every position \<open>(j, k)\<close> add up to \<open>n\<close>, and \<open>mr\<close> is the
  transpose of \<open>rm\<close>.
\<close>

theorem md_pairs_total_and_transpose:
  assumes "wf_data d" and "2 \<le> ncols d" and "labels_ok d cols"
  shows "\<exists>P. md_pairs d cols = Inr P
           \<and> (\<forall>j<ncols d. \<forall>k<ncols d.
                 vals (rr P) ! j ! k + vals (rm P) ! j ! k + vals (mr P) ! j ! k + vals (mm P) ! j ! k
                   = int (length (cells d)))
           \<and> vals (mr P) = transpose_m (ncols d) (vals (rm P))"
proof -
  obtain P where P: "md_pairs d cols = Inr P"
      "vals (rr P) = count_matrix obs_i obs_i d" "vals (rm P) = count_matrix obs_i mis_i d"
      "vals (mr P) = count_matrix mis_i obs_i d" "vals (mm P) = count_matrix mis_i mis_i d"
    using md_pairs_vals[OF assms] by blast
  have "vals (rr P) ! j ! k + vals (rm P) ! j ! k + vals (mr P) ! j ! k + vals (mm P) ! j ! k
          = int (length (cells d))" if "j < ncols d" "k < ncols d" for j k
    using that by (simp add: P count_matrix_nth pair_count_total)
  moreover have "vals (mr P) = transpose_m (ncols d) (vals (rm P))"
    by (simp add: P count_matrix_transpose)
  ultimately show ?thesis using P(1) by blast
qed

lemma ex_data_ok: "wf_data ex_data" "2 \<le> ncols ex_data" "labels_ok ex_data None"
  by (simp_all add: ex_data_def wf_data_def labels_ok_def)

theorem md_pairs_total_and_transpose_witness:
  "wf_data ex_data \<and> 2 \<le> ncols ex_data \<and> labels_ok ex_data None
   \<and> (\<exists>P. md_pairs ex_data None = Inr P
        \<and> (\<forall>j<ncols ex_data. \<forall>k<ncols ex_data.
              vals (rr P) ! j ! k + vals (rm P) ! j ! k + vals (mr P) ! j ! k + vals (mm P) ! j ! k
                = int (length (cells ex_data)))
        \<and> vals (mr P) = transpose_m (ncols ex_data) (vals (rm P)))"
  using md_pairs_total_and_transpose[OF ex_data_ok] ex_data_ok by simp

subsection \<open>Closed forms of the coefficients\<close>

lemma count_matrix_tab: "count_matrix f g d = tabulate2 (ncols d) (pair_count f g (cells d))"
  by (simp add: count_matrix_def tabulate2_def)

lemma tabulate2_nth: "j < p \<Longrightarrow> k < p \<Longrightarrow> tabulate2 p F ! j ! k = F j k"
  by (simp add: tabulate2_def)

lemma length_tabulate2: "length (tabulate2 p F) = p"
  by (simp add: tabulate2_def)

lemma tabulate2_row: "j < p \<Longrightarrow> tabulate2 p F ! j = map (F j) [0..<p]"
  by (simp add: tabulate2_def)

lemma tadd_tab:
  "vals a = tabulate2 p A \<Longrightarrow> vals b = tabulate2 p B
   \<Longrightarrow> vals (tadd a b) = tabulate2 p (\<lambda>j k. A j k + B j k)"
  by (simp add: tadd_def tabulate2_def zip_map_same)

lemma tdiv_tab:
  "vals a = tabulate2 p A \<Longrightarrow> vals b = tabulate2 p B
   \<Longrightarrow> vals (tdiv a b) = tabulate2 p (\<lambda>j k. fdiv (of_count (A j k)) (of_count (B j k)))"
  by (simp add: tdiv_def tabulate2_def zip_map_same)

lemma nansum_rows_tab:
  "vals a = tabulate2 p A \<Longrightarrow> nansum_rows a = map (\<lambda>j. (\<Sum>k\<leftarrow>[0..<p]. A j k)) [0..<p]"
  by (simp add: nansum_rows_def tabulate2_def comp_def)

lemma md_pairs_none:
  assumes "wf_data d" "2 \<le> ncols d"
  shows "\<exists>P. md_pairs d None = Inr P
     \<and> vals (rr P) = tabulate2 (ncols d) (pair_count obs_i obs_i (cells d))
     \<and> vals (rm P) = tabulate2 (ncols d) (pair_count obs_i mis_i (cells d))
     \<and> vals (mr P) = tabulate2 (ncols d) (pair_count mis_i obs_i (cells d))
     \<and> vals (mm P) = tabulate2 (ncols d) (pair_count mis_i mis_i (cells d))"
  using md_pairs_vals[OF assms, of None] by (simp add: labels_ok_def count_matrix_tab)

lemma priv_inbound_tab:
  assumes "vals (mr P) = tabulate2 p (pair_count mis_i obs_i rows)"
      "vals (mm P) = tabulate2 p (pair_count mis_i mis_i rows)"
  shows "vals (priv_inbound P) = tabulate2 p (inbound_at rows)"
  unfolding priv_inbound_def inbound_at_def
  by (rule tdiv_tab[OF assms(1) tadd_tab[OF assms(1) assms(2)]])

lemma priv_outbound_tab:
  assumes "vals (rm P) = tabulate2 p (pair_count obs_i mis_i rows)"
      "vals (rr P) = tabulate2 p (pair_count obs_i obs_i rows)"
  shows "vals (priv_outbound P) = tabulate2 p (outbound_at rows)"
  unfolding priv_outbound_def outbound_at_def
  by (rule tdiv_tab[OF assms(1) tadd_tab[OF assms(1) assms(2)]])

lemma priv_influx_tab:
  assumes "vals (mr P) = tabulate2 p (pair_count mis_i obs_i rows)"
      "vals (rr P) = tabulate2 p (pair_count obs_i obs_i rows)"
  shows "priv_influx P = map (influx_at p rows) [0..<p]"
  by (simp add: priv_influx_def Let_def nansum_rows_tab[OF assms(1)]
        nansum_rows_tab[OF tadd_tab[OF assms(1) assms(2)]] zip_map_same influx_at_def)

lemma priv_outflux_tab:
  assumes "vals (rm P) = tabulate2 p (pair_count obs_i mis_i rows)"
      "vals (mm P) = tabulate2 p (pair_count mis_i mis_i rows)"
  shows "priv_outflux P = map (outflux_at p rows) [0..<p]"
  by (simp add: priv_outflux_def Let_def nansum_rows_tab[OF assms(1)]
        nansum_rows_tab[OF tadd_tab[OF assms(1) assms(2)]] zip_map_same outflux_at_def)

lemma inbound_vals:
  assumes "wf_data d" "2 \<le> ncols d" "labels_ok d cols"
  shows "\<exists>t. inbound d cols = Inr t \<and> vals t = tabulate2 (ncols d) (inbound_at (cells d))"
proof -
  obtain P where P: "md_pairs d None = Inr P"
      "vals (mr P) = tabulate2 (ncols d) (pair_count mis_i obs_i (cells d))"
      "vals (mm P) = tabulate2 (ncols d) (pair_count mis_i mis_i (cells d))"
    using md_pairs_none[OF assms(1,2)] by blast
  show ?thesis using assms(3)
    by (cases cols)
       (simp_all add: inbound_def get_stat_for_def bind_err_def P(1) priv_inbound_tab[OF P(2,3)]
          priv_pattern_output_def labels_ok_def length_tabulate2)
qed

lemma outbound_vals:
  assumes "wf_data d" "2 \<le> ncols d" "labels_ok d cols"
  shows "\<exists>t. outbound d cols = Inr t \<and> vals t = tabulate2 (ncols d) (outbound_at (cells d))"
proof -
  obtain P where P: "md_pairs d None = Inr P"
      "vals (rm P) = tabulate2 (ncols d) (pair_count obs_i mis_i (cells d))"
      "vals (rr P) = tabulate2 (ncols d) (pair_count obs_i obs_i (cells d))"
    using md_pairs_none[OF assms(1,2)] by blast
  show ?thesis using assms(3)
    by (cases cols)
       (simp_all add: outbound_def get_stat_for_def bind_err_def P(1) priv_outbound_tab[OF P(2,3)]
          priv_pattern_output_def labels_ok_def length_tabulate2)
qed

lemma influx_vals:
  assumes "wf_data d" "2 \<le> ncols d" "labels_ok d cols"
  shows "\<exists>t. influx d cols = Inr t \<and> vals t = [map (influx_at (ncols d) (cells d)) [0..<ncols d]]"
proof -
  obtain P where P: "md_pairs d None = Inr P"
      "vals (mr P) = tabulate2 (ncols d) (pair_count mis_i obs_i (cells d))"
      "vals (rr P) = tabulate2 (ncols d) (pair_count obs_i obs_i (cells d))"
    using md_pairs_none[OF assms(1,2)] by blast
  show ?thesis using assms(3)
    by (cases cols)
       (simp_all add: influx_def get_stat_for_def bind_err_def P(1) priv_influx_tab[OF P(2,3)]
          priv_pattern_output_def labels_ok_def)
qed

lemma outflux_vals:
  assumes "wf_data d" "2 \<le> ncols d" "labels_ok d cols"
  shows "\<exists>t. outflux d cols = Inr t \<and> vals t = [map (outflux_at (ncols d) (cells d)) [0..<ncols d]]"
proof -
  obtain P where P: "md_pairs d None = Inr P"
      "vals (rm P) = tabulate2 (ncols d) (pair_count obs_i mis_i (cells d))"
      "vals (mm P) = tabulate2 (ncols d) (pair_count mis_i mis_i (cells d))"
    using md_pairs_none[OF assms(1,2)] by blast
  show ?thesis using assms(3)
    by (cases cols)
       (simp_all add: outflux_def get_stat_for_def bind_err_def P(1) priv_outflux_tab[OF P(2,3)]
          priv_pattern_output_def labels_ok_def)
qed

subsection \<open>Datasets of fewer than two columns\<close>

text \<open>
  Claim C7. On a dataset of fewer than two columns each of \<open>md_pairs\<close>, \<open>md_pattern\<close>,
  \<open>inbound\<close>, \<open>outbound\<close>, \<open>influx\<close>, \<open>outflux\<close> and \<open>flux\<close> raises \<open>DimensionError\<close>;
  the result is the error and nothing else.
\<close>

theorem too_few_columns_raise:
  assumes "ncols d < 2"
  shows "md_pairs d cols = Inl DimensionError \<and> md_pattern d cs = Inl DimensionError
       \<and> inbound d cols = Inl DimensionError \<and> outbound d cols = Inl DimensionError
       \<and> influx d cols = Inl DimensionError \<and> outflux d cols = Inl DimensionError
       \<and> flux d cs = Inl DimensionError"
  using assms
  by (simp add: md_pairs_def md_pattern_def inbound_def outbound_def influx_def outflux_def
        flux_def get_stat_for_def check_dimensions_def bind_err_def)

theorem too_few_columns_raise_witness:
  "ncols one_col < 2
   \<and> md_pairs one_col None = Inl DimensionError
   \<and> md_pattern one_col [Name ''a''] = Inl DimensionError
   \<and> inbound one_col None = Inl DimensionError \<and> outbound one_col None = Inl DimensionError
   \<and> influx one_col None = Inl DimensionError \<and> outflux one_col None = Inl DimensionError
   \<and> flux one_col [Name ''a''] = Inl DimensionError"
proof -
  have h: "ncols one_col < 2" by (simp add: one_col_def)
  show ?thesis using too_few_columns_raise[OF h, of None "[Name ''a'']"] h by simp
qed

subsection \<open>Counts and quotients\<close>

lemma obs_mis_nonneg: "0 \<le> obs_i c" "0 \<le> mis_i c"
  by (simp_all add: obs_i_def mis_i_def split: option.split)

lemma pair_count_nonneg:
  assumes "\<And>c. 0 \<le> f c" "\<And>c. 0 \<le> g c"
  shows "0 \<le> pair_count f g rows j k"
  unfolding pair_count_def by (rule sum_list_nonneg) (auto simp: assms)

lemmas pc_nonneg =
  pair_count_nonneg[of obs_i obs_i, OF obs_mis_nonneg(1) obs_mis_nonneg(1)]
  pair_count_nonneg[of obs_i mis_i, OF obs_mis_nonneg(1) obs_mis_nonneg(2)]
  pair_count_nonneg[of mis_i obs_i, OF obs_mis_nonneg(2) obs_mis_nonneg(1)]
  pair_count_nonneg[of mis_i mis_i, OF obs_mis_nonneg(2) obs_mis_nonneg(2)]

lemma pair_count_diag: "pair_count mis_i obs_i rows j j = 0" "pair_count obs_i mis_i rows j j = 0"
  by (induction rows) (simp_all add: pair_count_def obs_i_def mis_i_def split: option.split)

lemma pair_count_const:
  assumes "\<And>row. row \<in> set rows \<Longrightarrow> f (row ! j) * g (row ! k) = c"
  shows "pair_count f g rows j k = c * int (length rows)"
  using assms by (induction rows) (simp_all add: pair_count_def algebra_simps)

lemma fdiv_counts:
  assumes "0 \<le> a" "0 \<le> b"
  shows "fdiv (of_count a) (of_count (a + b))
       = (if a + b = 0 then NaN else Fin (of_int a / of_int (a + b)))"
  using assms by (auto simp: of_count_def)

lemma fdiv_counts_unit:
  assumes "0 \<le> a" "0 \<le> b"
  shows "unit_or_nan (fdiv (of_count a) (of_count (a + b)))"
proof (cases "a + b = 0")
  case True
  then have "a = 0" "b = 0" using assms by simp_all
  then show ?thesis by (simp add: of_count_def unit_or_nan_def)
next
  case False
  then have "0 < a + b" using assms by simp
  then have "(of_int a :: rat) / of_int (a + b) \<le> 1" "0 \<le> (of_int a :: rat) / of_int (a + b)"
    using assms by (simp_all add: divide_le_eq_1)
  then show ?thesis using False assms by (simp add: fdiv_counts unit_or_nan_def)
qed

lemma inbound_at_unit: "unit_or_nan (inbound_at rows j k)"
  unfolding inbound_at_def by (rule fdiv_counts_unit) (rule pc_nonneg)+

lemma outbound_at_unit: "unit_or_nan (outbound_at rows j k)"
  unfolding outbound_at_def by (rule fdiv_counts_unit) (rule pc_nonneg)+

lemma inbound_at_diag: "inbound_at rows j j = Fin 0 \<or> inbound_at rows j j = NaN"
  by (simp add: inbound_at_def pair_count_diag of_count_def)

lemma outbound_at_diag: "outbound_at rows j j = Fin 0 \<or> outbound_at rows j j = NaN"
  by (simp add: outbound_at_def pair_count_diag of_count_def)

lemma nansum_single: "x = Fin 0 \<or> x = NaN \<Longrightarrow> nansum [x] = Fin 0"
  by (auto simp: nansum_def)

subsection \<open>The diagonal of the inbound and outbound matrices\<close>

text \<open>
  Claim C10. For a dataset of at least two columns every diagonal entry of the inbound
  and of the outbound matrix is 0 or NaN, so that its contribution to the NaN-as-zero
  sum of its row is zero.
\<close>

theorem diagonal_zero_or_nan:
  assumes "wf_data d" and "2 \<le> ncols d" and "labels_ok d cols"
  shows "\<exists>ti to. inbound d cols = Inr ti \<and> outbound d cols = Inr to
           \<and> (\<forall>j<ncols d.
                 (vals ti ! j ! j = Fin 0 \<or> vals ti ! j ! j = NaN) \<and> nansum [vals ti ! j ! j] = Fin 0
               \<and> (vals to ! j ! j = Fin 0 \<or> vals to ! j ! j = NaN) \<and> nansum [vals to ! j ! j] = Fin 0)"
proof -
  obtain ti where I: "inbound d cols = Inr ti" "vals ti = tabulate2 (ncols d) (inbound_at (cells d))"
    using inbound_vals[OF assms] by blast
  obtain to where O: "outbound d cols = Inr to" "vals to = tabulate2 (ncols d) (outbound_at (cells d))"
    using outbound_vals[OF assms] by blast
  have "(vals ti ! j ! j = Fin 0 \<or> vals ti ! j ! j = NaN) \<and> nansum [vals ti ! j ! j] = Fin 0
      \<and> (vals to ! j ! j = Fin 0 \<or> vals to ! j ! j = NaN) \<and> nansum [vals to ! j ! j] = Fin 0"
    if "j < ncols d" for j
    using that inbound_at_diag[of "cells d" j] outbound_at_diag[of "cells d" j]
    by (simp add: I(2) O(2) tabulate2_nth nansum_single)
  then show ?thesis using I(1) O(1) by blast
qed

theorem diagonal_zero_or_nan_witness:
  "wf_data ex_data \<and> 2 \<le> ncols ex_data \<and> labels_ok ex_data None
   \<and> (\<exists>ti to. inbound ex_data None = Inr ti \<and> outbound ex_data None = Inr to
           \<and> (\<forall>j<ncols ex_data.
                 (vals ti ! j ! j = Fin 0 \<or> vals ti ! j ! j = NaN) \<and> nansum [vals ti ! j ! j] = Fin 0
               \<and> (vals to ! j ! j = Fin 0 \<or> vals to ! j ! j = NaN) \<and> nansum [vals to ! j ! j] = Fin 0))"
  using diagonal_zero_or_nan[OF ex_data_ok] ex_data_ok by simp

subsection \<open>Fully observed and fully missing datasets\<close>

lemma sum_list_const_on:
  assumes "\<And>x. x \<in> set xs \<Longrightarrow> f x = (c::int)"
  shows "sum_list (map f xs) = c * int (length xs)"
  using assms by (induction xs) (simp_all add: algebra_simps)

lemma cell_in_row:
  assumes "wf_data d" "row \<in> set (cells d)" "j < ncols d"
  shows "row ! j \<in> set row"
  using assms by (simp add: wf_data_def list_all_iff)

lemma observed_cell:
  assumes "wf_data d" "fully_observed d" "row \<in> set (cells d)" "j < ncols d"
  shows "obs_i (row ! j) = 1" "mis_i (row ! j) = 0"
proof -
  have "row ! j \<noteq> None"
    using cell_in_row[OF assms(1,3,4)] assms(2,3) by (auto simp: fully_observed_def list_all_iff)
  then show "obs_i (row ! j) = 1" "mis_i (row ! j) = 0"
    by (auto simp: obs_i_def mis_i_def)
qed

lemma missing_cell:
  assumes "wf_data d" "fully_missing d" "row \<in> set (cells d)" "j < ncols d"
  shows "obs_i (row ! j) = 0" "mis_i (row ! j) = 1"
proof -
  have "row ! j = None"
    using cell_in_row[OF assms(1,3,4)] assms(2,3) by (auto simp: fully_missing_def list_all_iff)
  then show "obs_i (row ! j) = 0" "mis_i (row ! j) = 1"
    by (auto simp: obs_i_def mis_i_def)
qed

lemma observed_counts:
  assumes "wf_data d" "fully_observed d" "j < ncols d" "k < ncols d"
  shows "pair_count obs_i obs_i (cells d) j k = int (length (cells d))"
    "pair_count obs_i mis_i (cells d) j k = 0"
    "pair_count mis_i obs_i (cells d) j k = 0"
    "pair_count mis_i mis_i (cells d) j k = 0"
  using pair_count_const[of "cells d" obs_i j obs_i k 1]
    pair_count_const[of "cells d" obs_i j mis_i k 0]
    pair_count_const[of "cells d" mis_i j obs_i k 0]
    pair_count_const[of "cells d" mis_i j mis_i k 0]
    observed_cell[OF assms(1,2) _ assms(3)] observed_cell[OF assms(1,2) _ assms(4)]
  by simp_all

lemma missing_counts:
  assumes "wf_data d" "fully_missing d" "j < ncols d" "k < ncols d"
  shows "pair_count obs_i obs_i (cells d) j k = 0"
    "pair_count obs_i mis_i (cells d) j k = 0"
    "pair_count mis_i obs_i (cells d) j k = 0"
    "pair_count mis_i mis_i (cells d) j k = int (length (cells d))"
  using pair_count_const[of "cells d" obs_i j obs_i k 0]
    pair_count_const[of "cells d" obs_i j mis_i k 0]
    pair_count_const[of "cells d" mis_i j obs_i k 0]
    pair_count_const[of "cells d" mis_i j mis_i k 1]
    missing_cell[OF assms(1,2) _ assms(3)] missing_cell[OF assms(1,2) _ assms(4)]
  by simp_all

lemma observed_coefficients:
  assumes "wf_data d" "fully_observed d" "cells d \<noteq> []" "2 \<le> ncols d" "j < ncols d"
  shows "influx_at (ncols d) (cells d) j = Fin 0"
    "k < ncols d \<Longrightarrow> inbound_at (cells d) j k = NaN"
    "k < ncols d \<Longrightarrow> outbound_at (cells d) j k = Fin 0"
proof -
  have s0: "(\<Sum>k\<leftarrow>[0..<ncols d]. pair_count mis_i obs_i (cells d) j k) = 0"
    using sum_list_const_on[of "[0..<ncols d]" "\<lambda>k. pair_count mis_i obs_i (cells d) j k" 0]
      observed_counts[OF assms(1,2,5)]
    by simp
  have s1: "(\<Sum>k\<leftarrow>[0..<ncols d]. pair_count mis_i obs_i (cells d) j k + pair_count obs_i obs_i (cells d) j k)
      = int (length (cells d)) * int (ncols d)"
    using sum_list_const_on[of "[0..<ncols d]"
        "\<lambda>k. pair_count mis_i obs_i (cells d) j k + pair_count obs_i obs_i (cells d) j k"
        "int (length (cells d))"]
      observed_counts[OF assms(1,2,5)]
    by simp
  show "influx_at (ncols d) (cells d) j = Fin 0"
    using assms(3,4) by (simp add: influx_at_def s0 s1 of_count_def)
  show "inbound_at (cells d) j k = NaN" if "k < ncols d"
    by (simp add: inbound_at_def observed_counts[OF assms(1,2,5) that] of_count_def)
  show "outbound_at (cells d) j k = Fin 0" if "k < ncols d"
    using assms(3) by (simp add: outbound_at_def observed_counts[OF assms(1,2,5) that] of_count_def)
qed

lemma missing_outflux:
  assumes "wf_data d" "fully_missing d" "cells d \<noteq> []" "2 \<le> ncols d" "j < ncols d"
  shows "outflux_at (ncols d) (cells d) j = Fin 0"
proof -
  have s0: "(\<Sum>k\<leftarrow>[0..<ncols d]. pair_count obs_i mis_i (cells d) j k) = 0"
    using sum_list_const_on[of "[0..<ncols d]" "\<lambda>k. pair_count obs_i mis_i (cells d) j k" 0]
      missing_counts[OF assms(1,2,5)]
    by simp
  have s1: "(\<Sum>k\<leftarrow>[0..<ncols d]. pair_count obs_i mis_i (cells d) j k + pair_count mis_i mis_i (cells d) j k)
      = int (length (cells d)) * int (ncols d)"
    using sum_list_const_on[of "[0..<ncols d]"
        "\<lambda>k. pair_count obs_i mis_i (cells d) j k + pair_count mis_i mis_i (cells d) j k"
        "int (length (cells d))"]
      missing_counts[OF assms(1,2,5)]
    by simp
  show ?thesis
    using assms(3,4) by (simp add: outflux_at_def s0 s1 of_count_def)
qed

lemma full2_ok: "wf_data full2" "2 \<le> ncols full2" "labels_ok full2 None" "fully_observed full2"
    "cells full2 \<noteq> []"
  by (simp_all add: full2_def wf_data_def labels_ok_def fully_observed_def)

text \<open>
  Claim C2, as stated, fails: on a fully observed dataset the denominators of
  \<open>outbound\<close> are the number of rows, so with a row \<open>outbound\<close> is 0 and not NaN;
  and without a row (no cell is missing then) \<open>influx\<close> is 0/0, NaN and not 0.
\<close>

theorem fully_observed_counterexample:
  "outbound full2 None = Inr \<lparr>index = None, columns = None, vals = [[Fin 0, Fin 0], [Fin 0, Fin 0]]\<rparr>
   \<and> influx no_rows None = Inr \<lparr>index = None, columns = None, vals = [[NaN, NaN]]\<rparr>"
  by code_simp

text \<open>
  Claim C2, amended. For a fully observed dataset of at least two columns and at least
  one row: \<open>influx\<close> is 0 for every variable, every entry of the inbound matrix is NaN
  and every entry of the outbound matrix is 0. (Nothing is said of \<open>outflux\<close> here.)
\<close>

theorem fully_observed_coefficients:
  assumes "wf_data d" and "2 \<le> ncols d" and "labels_ok d cols"
    and "fully_observed d" and "cells d \<noteq> []"
  shows "\<exists>tf ti to. influx d cols = Inr tf \<and> inbound d cols = Inr ti \<and> outbound d cols = Inr to
           \<and> (\<forall>j<ncols d. vals tf ! 0 ! j = Fin 0)
           \<and> (\<forall>j<ncols d. \<forall>k<ncols d. vals ti ! j ! k = NaN \<and> vals to ! j ! k = Fin 0)"
proof -
  obtain tf where F: "influx d cols = Inr tf"
      "vals tf = [map (influx_at (ncols d) (cells d)) [0..<ncols d]]"
    using influx_vals[OF assms(1-3)] by blast
  obtain ti where I: "inbound d cols = Inr ti" "vals ti = tabulate2 (ncols d) (inbound_at (cells d))"
    using inbound_vals[OF assms(1-3)] by blast
  obtain to where O: "outbound d cols = Inr to" "vals to = tabulate2 (ncols d) (outbound_at (cells d))"
    using outbound_vals[OF assms(1-3)] by blast
  note oc = observed_coefficients[OF assms(1,4,5,2)]
  have "\<forall>j<ncols d. vals tf ! 0 ! j = Fin 0"
    by (simp add: F(2) oc)
  moreover have "\<forall>j<ncols d. \<forall>k<ncols d. vals ti ! j ! k = NaN \<and> vals to ! j ! k = Fin 0"
    by (simp add: I(2) O(2) tabulate2_nth oc)
  ultimately show ?thesis using F(1) I(1) O(1) by blast
qed

theorem fully_observed_coefficients_witness:
  "wf_data full2 \<and> 2 \<le> ncols full2 \<and> labels_ok full2 None \<and> fully_observed full2 \<and> cells full2 \<noteq> []
   \<and> (\<exists>tf ti to. influx full2 None = Inr tf \<and> inbound full2 None = Inr ti
           \<and> outbound full2 None = Inr to
           \<and> (\<forall>j<ncols full2. vals tf ! 0 ! j = Fin 0)
           \<and> (\<forall>j<ncols full2. \<forall>k<ncols full2. vals ti ! j ! k = NaN \<and> vals to ! j ! k = Fin 0))"
  using fully_observed_coefficients[OF full2_ok] full2_ok by simp

text \<open>
  For a fully missing dataset of at least two columns and at least one row,
  \<open>outflux\<close> is 0 for every variable.
\<close>

lemma fully_missing_outflux:
  assumes "wf_data d" and "2 \<le> ncols d" and "labels_ok d cols"
    and "fully_missing d" and "cells d \<noteq> []"
  shows "\<exists>tg. outflux d cols = Inr tg \<and> (\<forall>j<ncols d. vals tg ! 0 ! j = Fin 0)"
proof -
  obtain tg where G: "outflux d cols = Inr tg"
      "vals tg = [map (outflux_at (ncols d) (cells d)) [0..<ncols d]]"
    using outflux_vals[OF assms(1-3)] by blast
  have "\<forall>j<ncols d. vals tg ! 0 ! j = Fin 0"
    by (simp add: G(2) missing_outflux[OF assms(1,4,5,2)])
  then show ?thesis using G(1) by blast
qed

text \<open>
  Claim C5 is right about \<open>influx\<close> and the code is not: the docstring of \<open>influx\<close>
  says that the influx of a completely missing variable is 1, and on the dataset of
  one row with both cells missing the code returns NaN for both variables, because
  it divides by the number of observed cells of the whole dataset, which is zero.
\<close>

theorem fully_missing_influx_is_nan:
  "priv_is_null miss2 = [[True, True]]
   \<and> influx miss2 None = Inr \<lparr>index = None, columns = None, vals = [[NaN, NaN]]\<rparr>"
  by code_simp

subsection \<open>The entries of the flux report\<close>

lemma nansum_fold:
  assumes "\<And>x. x \<in> set xs \<Longrightarrow> unit_or_nan x"
  shows "foldl fadd (Fin a) (map (\<lambda>x. if x = NaN then Fin 0 else x) xs)
       = Fin (a + (\<Sum>x\<leftarrow>xs. fin_or_zero x))"
  using assms
proof (induction xs arbitrary: a)
  case Nil
  then show ?case by simp
next
  case (Cons x xs)
  have "unit_or_nan x" using Cons.prems by simp
  then have hd: "fadd (Fin a) (if x = NaN then Fin 0 else x) = Fin (a + fin_or_zero x)"
    by (cases x) (simp_all add: unit_or_nan_def fin_or_zero_def)
  show ?case using Cons.IH[of "a + fin_or_zero x"] Cons.prems
    by (simp add: hd add.assoc)
qed

lemma nansum_unit:
  assumes "\<And>x. x \<in> set xs \<Longrightarrow> unit_or_nan x"
  shows "nansum xs = Fin (\<Sum>x\<leftarrow>xs. fin_or_zero x)"
  using nansum_fold[of xs 0] assms by (simp add: nansum_def)

lemma unit_or_nan_bounds: "unit_or_nan x \<Longrightarrow> 0 \<le> fin_or_zero x \<and> fin_or_zero x \<le> 1"
  by (cases x) (simp_all add: unit_or_nan_def fin_or_zero_def)

lemma row_sum_bound:
  assumes "\<And>k. unit_or_nan (F k)" "fin_or_zero (F j) = 0" "j < p"
  shows "0 \<le> (\<Sum>k\<leftarrow>[0..<p]. fin_or_zero (F k))" "(\<Sum>k\<leftarrow>[0..<p]. fin_or_zero (F k)) \<le> of_nat p - 1"
proof -
  let ?g = "\<lambda>k. fin_or_zero (F k)"
  have s: "(\<Sum>k\<leftarrow>[0..<p]. ?g k) = sum ?g {0..<p}"
    by (simp add: interv_sum_list_conv_sum_set_nat)
  show "0 \<le> (\<Sum>k\<leftarrow>[0..<p]. ?g k)"
    unfolding s by (rule sum_nonneg) (simp add: unit_or_nan_bounds assms(1))
  have "sum ?g {0..<p} = ?g j + sum ?g ({0..<p} - {j})"
    using assms(3) by (simp add: sum.remove)
  also have "\<dots> = sum ?g ({0..<p} - {j})" by (simp add: assms(2))
  also have "\<dots> \<le> of_nat (card ({0..<p} - {j})) * 1"
    by (rule sum_bounded_above) (simp add: unit_or_nan_bounds assms(1))
  also have "\<dots> = of_nat p - 1" using assms(3) by (simp add: of_nat_diff)
  finally show "(\<Sum>k\<leftarrow>[0..<p]. ?g k) \<le> of_nat p - 1" unfolding s .
qed

lemma row_mean_value:
  assumes "\<And>k. unit_or_nan (F k)" "2 \<le> p"
  shows "row_mean (map F [0..<p]) = Fin ((\<Sum>k\<leftarrow>[0..<p]. fin_or_zero (F k)) / (of_nat p - 1))"
proof -
  have "nansum (map F [0..<p]) = Fin (\<Sum>k\<leftarrow>[0..<p]. fin_or_zero (F k))"
    using nansum_unit[of "map F [0..<p]"] assms(1) by (auto simp: comp_def)
  moreover have "(of_int (int p - 1) :: rat) = of_nat p - 1" by simp
  moreover have "(of_nat p :: rat) - 1 \<noteq> 0" using assms(2) by simp
  ultimately show ?thesis by (simp add: row_mean_def of_count_def)
qed

lemma row_mean_unit:
  assumes "\<And>k. unit_or_nan (F k)" "fin_or_zero (F j) = 0" "j < p" "2 \<le> p"
  shows "unit_or_nan (row_mean (map F [0..<p]))"
proof -
  have "0 < (of_nat p :: rat) - 1" using assms(4) by simp
  then show ?thesis
    using row_sum_bound[of F j p, OF assms(1,2,3)]
    by (simp add: row_mean_value[OF assms(1,4)] unit_or_nan_def)
qed

lemma inbound_diag_zero: "fin_or_zero (inbound_at rows j j) = 0"
  using inbound_at_diag[of rows j] by (auto simp: fin_or_zero_def)

lemma outbound_diag_zero: "fin_or_zero (outbound_at rows j j) = 0"
  using outbound_at_diag[of rows j] by (auto simp: fin_or_zero_def)

lemma mean_axis0_pobs:
  assumes "wf_data d"
  shows "mean_axis0 (ncols d) (map (map Not) (priv_is_null d)) = map (pobs_at (cells d)) [0..<ncols d]"
proof -
  have "(\<Sum>row\<leftarrow>map (map Not) (priv_is_null d). if row ! j then 1 else 0)
      = (\<Sum>row\<leftarrow>cells d. obs_i (row ! j))" if "j < ncols d" for j
  proof -
    have "(if map Not (map (\<lambda>c. case c of None \<Rightarrow> True | Some _ \<Rightarrow> False) row) ! j then 1 else 0)
        = obs_i (row ! j)" if "row \<in> set (cells d)" for row
      using that assms \<open>j < ncols d\<close>
      by (simp add: wf_data_def list_all_iff obs_i_def split: option.split)
    then show ?thesis
      by (simp add: priv_is_null_def comp_def cong: map_cong)
  qed
  then show ?thesis
    by (simp add: mean_axis0_def pobs_at_def priv_is_null_def)
qed

lemma flux_vals:
  assumes "wf_data d" "2 \<le> ncols d" "length cs = ncols d"
  shows "\<exists>t. flux d cs = Inr t \<and> index t = Some cs
     \<and> columns t = Some [Name ''pobs'', Name ''influx'', Name ''outflux'', Name ''ainb'', Name ''aout'']
     \<and> vals t = map (\<lambda>j. [pobs_at (cells d) j, influx_at (ncols d) (cells d) j,
                          outflux_at (ncols d) (cells d) j,
                          row_mean (map (inbound_at (cells d) j) [0..<ncols d]),
                          row_mean (map (outbound_at (cells d) j) [0..<ncols d])]) [0..<ncols d]"
proof -
  obtain P where P: "md_pairs d None = Inr P"
      "vals (rr P) = tabulate2 (ncols d) (pair_count obs_i obs_i (cells d))"
      "vals (rm P) = tabulate2 (ncols d) (pair_count obs_i mis_i (cells d))"
      "vals (mr P) = tabulate2 (ncols d) (pair_count mis_i obs_i (cells d))"
      "vals (mm P) = tabulate2 (ncols d) (pair_count mis_i mis_i (cells d))"
    using md_pairs_none[OF assms(1,2)] by blast
  note forms = mean_axis0_pobs[OF assms(1)] priv_inbound_tab[OF P(4,5)] priv_outbound_tab[OF P(3,2)]
    priv_influx_tab[OF P(4,2)] priv_outflux_tab[OF P(3,5)]
  have "tabulate2 (ncols d) F \<noteq> []" for F :: "nat \<Rightarrow> nat \<Rightarrow> fl"
    using assms(2) by (simp add: tabulate2_def)
  then show ?thesis
    by (simp add: flux_def bind_err_def P(1) Let_def forms apply_along_axis1_def data_frame_def
          assms(3)) (simp add: tabulate2_def)
qed

lemma obs_count_filter:
  "(\<Sum>row\<leftarrow>rows. obs_i (row ! j)) = int (length (filter (\<lambda>row. row ! j \<noteq> None) rows))"
  by (induction rows) (auto simp: obs_i_def split: option.split)

lemma pobs_at_fraction:
  "pobs_at rows j =
     (if rows = [] then NaN
      else Fin (of_nat (length (filter (\<lambda>row. row ! j \<noteq> None) rows)) / of_nat (length rows)))"
  by (simp add: pobs_at_def obs_count_filter of_count_def)

lemma pobs_at_unit: "unit_or_nan (pobs_at rows j)"
proof -
  let ?a = "int (length (filter (\<lambda>row. row ! j \<noteq> None) rows))"
  let ?b = "int (length rows) - ?a"
  have "?a \<le> int (length rows)" by simp
  then have "0 \<le> ?b" by linarith
  then have "unit_or_nan (fdiv (of_count ?a) (of_count (?a + ?b)))"
    by (intro fdiv_counts_unit) simp_all
  then show ?thesis by (simp add: pobs_at_def obs_count_filter)
qed

lemma influx_at_unit: "unit_or_nan (influx_at p rows j)"
proof -
  have "0 \<le> (\<Sum>k\<leftarrow>[0..<p]. pair_count mis_i obs_i rows j k)"
       "0 \<le> (\<Sum>k\<leftarrow>[0..<p]. pair_count obs_i obs_i rows j k)"
    by (rule sum_list_nonneg, auto simp: pc_nonneg)+
  then show ?thesis
    unfolding influx_at_def sum_list_addf by (rule fdiv_counts_unit)
qed

lemma outflux_at_unit: "unit_or_nan (outflux_at p rows j)"
proof -
  have "0 \<le> (\<Sum>k\<leftarrow>[0..<p]. pair_count obs_i mis_i rows j k)"
       "0 \<le> (\<Sum>k\<leftarrow>[0..<p]. pair_count mis_i mis_i rows j k)"
    by (rule sum_list_nonneg, auto simp: pc_nonneg)+
  then show ?thesis
    unfolding outflux_at_def sum_list_addf by (rule fdiv_counts_unit)
qed

lemma unit_or_nan_iff: "unit_or_nan x \<longleftrightarrow> x = NaN \<or> (\<exists>q. x = Fin q \<and> 0 \<le> q \<and> q \<le> 1)"
  by (cases x) (simp_all add: unit_or_nan_def)

text \<open>
  Claim C9. For a dataset of at least two columns every entry of the table that \<open>flux\<close>
  returns is NaN or a value of the closed interval from 0 to 1.
\<close>

theorem flux_entries_in_unit_interval:
  assumes "wf_data d" and "2 \<le> ncols d" and "length cs = ncols d"
  shows "\<exists>t. flux d cs = Inr t
           \<and> (\<forall>row\<in>set (vals t). \<forall>x\<in>set row. x = NaN \<or> (\<exists>q. x = Fin q \<and> 0 \<le> q \<and> q \<le> 1))"
proof -
  obtain t where t: "flux d cs = Inr t"
      "vals t = map (\<lambda>j. [pobs_at (cells d) j, influx_at (ncols d) (cells d) j,
                          outflux_at (ncols d) (cells d) j,
                          row_mean (map (inbound_at (cells d) j) [0..<ncols d]),
                          row_mean (map (outbound_at (cells d) j) [0..<ncols d])]) [0..<ncols d]"
    using flux_vals[OF assms] by blast
  have "unit_or_nan x" if "row \<in> set (vals t)" "x \<in> set row" for row x
  proof -
    from that(1) obtain j where j0: "j \<in> set [0..<ncols d]"
      and j2: "row = [pobs_at (cells d) j, influx_at (ncols d) (cells d) j,
                outflux_at (ncols d) (cells d) j,
                row_mean (map (inbound_at (cells d) j) [0..<ncols d]),
                row_mean (map (outbound_at (cells d) j) [0..<ncols d])]"
      unfolding t(2) set_map by (rule imageE)
    have j1: "j < ncols d" using j0 by simp
    have "unit_or_nan (row_mean (map (inbound_at (cells d) j) [0..<ncols d]))"
      by (rule row_mean_unit[OF inbound_at_unit inbound_diag_zero j1 assms(2)])
    moreover have "unit_or_nan (row_mean (map (outbound_at (cells d) j) [0..<ncols d]))"
      by (rule row_mean_unit[OF outbound_at_unit outbound_diag_zero j1 assms(2)])
    ultimately show ?thesis
      using that(2) pobs_at_unit[of "cells d" j] influx_at_unit[of "ncols d" "cells d" j]
        outflux_at_unit[of "ncols d" "cells d" j]
      by (auto simp: j2)
  qed
  then show ?thesis using t(1) by (auto simp: unit_or_nan_iff)
qed

lemma ex_data_cols: "length [Name ''A'', Name ''B'', Name ''C''] = ncols ex_data"
  by (simp add: ex_data_def)

theorem flux_entries_in_unit_interval_witness:
  "wf_data ex_data \<and> 2 \<le> ncols ex_data \<and> length [Name ''A'', Name ''B'', Name ''C''] = ncols ex_data
   \<and> (\<exists>t. flux ex_data [Name ''A'', Name ''B'', Name ''C''] = Inr t
           \<and> (\<forall>row\<in>set (vals t). \<forall>x\<in>set row. x = NaN \<or> (\<exists>q. x = Fin q \<and> 0 \<le> q \<and> q \<le> 1)))"
  using flux_entries_in_unit_interval[OF ex_data_ok(1,2) ex_data_cols] ex_data_ok(1,2) ex_data_cols
  by simp

text \<open>
  Claim C8. For a dataset of at least two columns with one label per column, \<open>flux\<close>
  returns a table whose rows are labelled by \<open>cols\<close> and whose columns are \<open>pobs\<close>,
  \<open>influx\<close>, \<open>outflux\<close>, \<open>ainb\<close>, \<open>aout\<close> in this order. In the row of variable \<open>j\<close>,
  \<open>pobs\<close> is the fraction of the rows in which \<open>j\<close> is observed (NaN when there is no
  row), \<open>influx\<close> and \<open>outflux\<close> are the values of the two coefficients, and \<open>ainb\<close> and
  \<open>aout\<close> are the NaN-as-zero sums of row \<open>j\<close> of the inbound and of the outbound
  matrix, divided by \<open>p - 1\<close>.
\<close>

theorem flux_table:
  assumes "wf_data d" and "2 \<le> ncols d" and "length cs = ncols d"
  shows "\<exists>t ti to tf tg. flux d cs = Inr t
           \<and> inbound d None = Inr ti \<and> outbound d None = Inr to
           \<and> influx d None = Inr tf \<and> outflux d None = Inr tg
           \<and> index t = Some cs
           \<and> columns t = Some [Name ''pobs'', Name ''influx'', Name ''outflux'', Name ''ainb'', Name ''aout'']
           \<and> length (vals t) = ncols d
           \<and> (\<forall>j<ncols d. length (vals t ! j) = 5
                \<and> vals t ! j ! 0 =
                     (if cells d = [] then NaN
                      else Fin (of_nat (length (filter (\<lambda>row. row ! j \<noteq> None) (cells d)))
                                / of_nat (length (cells d))))
                \<and> vals t ! j ! 1 = vals tf ! 0 ! j
                \<and> vals t ! j ! 2 = vals tg ! 0 ! j
                \<and> vals t ! j ! 3 = Fin ((\<Sum>x\<leftarrow>vals ti ! j. fin_or_zero x) / (of_nat (ncols d) - 1))
                \<and> vals t ! j ! 4 = Fin ((\<Sum>x\<leftarrow>vals to ! j. fin_or_zero x) / (of_nat (ncols d) - 1)))"
proof -
  have lab: "labels_ok d None" by (simp add: labels_ok_def)
  obtain t where t: "flux d cs = Inr t" "index t = Some cs"
      "columns t = Some [Name ''pobs'', Name ''influx'', Name ''outflux'', Name ''ainb'', Name ''aout'']"
      "vals t = map (\<lambda>j. [pobs_at (cells d) j, influx_at (ncols d) (cells d) j,
                          outflux_at (ncols d) (cells d) j,
                          row_mean (map (inbound_at (cells d) j) [0..<ncols d]),
                          row_mean (map (outbound_at (cells d) j) [0..<ncols d])]) [0..<ncols d]"
    using flux_vals[OF assms] by blast
  obtain ti where I: "inbound d None = Inr ti" "vals ti = tabulate2 (ncols d) (inbound_at (cells d))"
    using inbound_vals[OF assms(1,2) lab] by blast
  obtain to where O: "outbound d None = Inr to" "vals to = tabulate2 (ncols d) (outbound_at (cells d))"
    using outbound_vals[OF assms(1,2) lab] by blast
  obtain tf where F: "influx d None = Inr tf"
      "vals tf = [map (influx_at (ncols d) (cells d)) [0..<ncols d]]"
    using influx_vals[OF assms(1,2) lab] by blast
  obtain tg where G: "outflux d None = Inr tg"
      "vals tg = [map (outflux_at (ncols d) (cells d)) [0..<ncols d]]"
    using outflux_vals[OF assms(1,2) lab] by blast
  have rows: "length (vals t ! j) = 5
      \<and> vals t ! j ! 0 =
           (if cells d = [] then NaN
            else Fin (of_nat (length (filter (\<lambda>row. row ! j \<noteq> None) (cells d)))
                      / of_nat (length (cells d))))
      \<and> vals t ! j ! 1 = vals tf ! 0 ! j
      \<and> vals t ! j ! 2 = vals tg ! 0 ! j
      \<and> vals t ! j ! 3 = Fin ((\<Sum>x\<leftarrow>vals ti ! j. fin_or_zero x) / (of_nat (ncols d) - 1))
      \<and> vals t ! j ! 4 = Fin ((\<Sum>x\<leftarrow>vals to ! j. fin_or_zero x) / (of_nat (ncols d) - 1))"
    if j: "j < ncols d" for j
    using j
    by (simp add: t(4) F(2) G(2) I(2) O(2) tabulate2_row pobs_at_fraction comp_def
          row_mean_value[OF inbound_at_unit assms(2)] row_mean_value[OF outbound_at_unit assms(2)])
  have "length (vals t) = ncols d" by (simp add: t(4))
  then show ?thesis using t(1,2,3) I(1) O(1) F(1) G(1) rows by blast
qed

theorem flux_table_witness:
  "wf_data ex_data \<and> 2 \<le> ncols ex_data \<and> length [Name ''A'', Name ''B'', Name ''C''] = ncols ex_data
   \<and> (\<exists>t ti to tf tg. flux ex_data [Name ''A'', Name ''B'', Name ''C''] = Inr t
           \<and> inbound ex_data None = Inr ti \<and> outbound ex_data None = Inr to
           \<and> influx ex_data None = Inr tf \<and> outflux ex_data None = Inr tg
           \<and> index t = Some [Name ''A'', Name ''B'', Name ''C'']
           \<and> columns t = Some [Name ''pobs'', Name ''influx'', Name ''outflux'', Name ''ainb'', Name ''aout'']
           \<and> length (vals t) = ncols ex_data
           \<and> (\<forall>j<ncols ex_data. length (vals t ! j) = 5
                \<and> vals t ! j ! 0 =
                     (if cells ex_data = [] then NaN
                      else Fin (of_nat (length (filter (\<lambda>row. row ! j \<noteq> None) (cells ex_data)))
                                / of_nat (length (cells ex_data))))
                \<and> vals t ! j ! 1 = vals tf ! 0 ! j
                \<and> vals t ! j ! 2 = vals tg ! 0 ! j
                \<and> vals t ! j ! 3 = Fin ((\<Sum>x\<leftarrow>vals ti ! j. fin_or_zero x) / (of_nat (ncols ex_data) - 1))
                \<and> vals t ! j ! 4 = Fin ((\<Sum>x\<leftarrow>vals to ! j. fin_or_zero x) / (of_nat (ncols ex_data) - 1))))"
  using flux_table[OF ex_data_ok(1,2) ex_data_cols] ex_data_ok(1,2) ex_data_cols
  by simp

subsection \<open>Zero denominators\<close>

lemma sum_without_nan: "(\<Sum>x\<leftarrow>filter (\<lambda>x. x \<noteq> NaN) xs. fin_or_zero x) = (\<Sum>x\<leftarrow>xs. fin_or_zero x)"
  by (induction xs) (simp_all add: fin_or_zero_def)

lemma fdiv_zero_denominator:
  assumes "0 \<le> a" "0 \<le> b" "a + b = 0"
  shows "fdiv (of_count a) (of_count (a + b)) = NaN"
proof -
  have "a = 0" "b = 0" using assms by simp_all
  then show ?thesis by (simp add: of_count_def)
qed

lemma inbound_at_zero_denominator:
  "pair_count mis_i obs_i rows j k + pair_count mis_i mis_i rows j k = 0 \<Longrightarrow> inbound_at rows j k = NaN"
  unfolding inbound_at_def by (rule fdiv_zero_denominator) (simp_all add: pc_nonneg)

lemma outbound_at_zero_denominator:
  "pair_count obs_i mis_i rows j k + pair_count obs_i obs_i rows j k = 0 \<Longrightarrow> outbound_at rows j k = NaN"
  unfolding outbound_at_def by (rule fdiv_zero_denominator) (simp_all add: pc_nonneg)

lemma influx_at_zero_denominator:
  assumes "(\<Sum>k\<leftarrow>[0..<p]. pair_count mis_i obs_i rows j k + pair_count obs_i obs_i rows j k) = 0"
  shows "influx_at p rows j = NaN"
proof -
  have "0 \<le> (\<Sum>k\<leftarrow>[0..<p]. pair_count mis_i obs_i rows j k)"
       "0 \<le> (\<Sum>k\<leftarrow>[0..<p]. pair_count obs_i obs_i rows j k)"
    by (rule sum_list_nonneg, auto simp: pc_nonneg)+
  then show ?thesis
    using assms unfolding influx_at_def sum_list_addf by (rule fdiv_zero_denominator)
qed

lemma outflux_at_zero_denominator:
  assumes "(\<Sum>k\<leftarrow>[0..<p]. pair_count obs_i mis_i rows j k + pair_count mis_i mis_i rows j k) = 0"
  shows "outflux_at p rows j = NaN"
proof -
  have "0 \<le> (\<Sum>k\<leftarrow>[0..<p]. pair_count obs_i mis_i rows j k)"
       "0 \<le> (\<Sum>k\<leftarrow>[0..<p]. pair_count mis_i mis_i rows j k)"
    by (rule sum_list_nonneg, auto simp: pc_nonneg)+
  then show ?thesis
    using assms unfolding outflux_at_def sum_list_addf by (rule fdiv_zero_denominator)
qed

text \<open>
  Claim C6. For a dataset of at least two columns no function raises on a zero
  denominator: \<open>inbound\<close>, \<open>outbound\<close>, \<open>influx\<close>, \<open>outflux\<close> and \<open>flux\<close> return their
  tables; an entry whose denominator (as the source computes it from the pair counts)
  is zero is NaN; and \<open>flux\<close> returns all its rows of five entries, with \<open>ainb\<close> and
  \<open>aout\<close> the sums of the entries that are not NaN, divided by \<open>p - 1\<close>.
\<close>

theorem zero_denominator_is_nan:
  assumes "wf_data d" and "2 \<le> ncols d" and "labels_ok d cols" and "length cs = ncols d"
  shows "\<exists>P ti to tf tg t. md_pairs d None = Inr P
           \<and> inbound d cols = Inr ti \<and> outbound d cols = Inr to
           \<and> influx d cols = Inr tf \<and> outflux d cols = Inr tg \<and> flux d cs = Inr t
           \<and> (\<forall>j<ncols d. \<forall>k<ncols d.
                 (vals (tadd (mr P) (mm P)) ! j ! k = 0 \<longrightarrow> vals ti ! j ! k = NaN)
               \<and> (vals (tadd (rm P) (rr P)) ! j ! k = 0 \<longrightarrow> vals to ! j ! k = NaN))
           \<and> (\<forall>j<ncols d.
                 (nansum_rows (tadd (mr P) (rr P)) ! j = 0
                    \<longrightarrow> vals tf ! 0 ! j = NaN \<and> vals t ! j ! 1 = NaN)
               \<and> (nansum_rows (tadd (rm P) (mm P)) ! j = 0
                    \<longrightarrow> vals tg ! 0 ! j = NaN \<and> vals t ! j ! 2 = NaN))
           \<and> length (vals t) = ncols d
           \<and> (\<forall>j<ncols d. length (vals t ! j) = 5
                \<and> vals t ! j ! 3 = Fin ((\<Sum>x\<leftarrow>filter (\<lambda>x. x \<noteq> NaN) (vals ti ! j). fin_or_zero x)
                                        / (of_nat (ncols d) - 1))
                \<and> vals t ! j ! 4 = Fin ((\<Sum>x\<leftarrow>filter (\<lambda>x. x \<noteq> NaN) (vals to ! j). fin_or_zero x)
                                        / (of_nat (ncols d) - 1)))"
proof -
  let ?p = "ncols d" and ?R = "cells d"
  obtain P where P: "md_pairs d None = Inr P"
      "vals (rr P) = tabulate2 ?p (pair_count obs_i obs_i ?R)"
      "vals (rm P) = tabulate2 ?p (pair_count obs_i mis_i ?R)"
      "vals (mr P) = tabulate2 ?p (pair_count mis_i obs_i ?R)"
      "vals (mm P) = tabulate2 ?p (pair_count mis_i mis_i ?R)"
    using md_pairs_none[OF assms(1,2)] by blast
  obtain t where t: "flux d cs = Inr t"
      "vals t = map (\<lambda>j. [pobs_at ?R j, influx_at ?p ?R j, outflux_at ?p ?R j,
                          row_mean (map (inbound_at ?R j) [0..<?p]),
                          row_mean (map (outbound_at ?R j) [0..<?p])]) [0..<?p]"
    using flux_vals[OF assms(1,2,4)] by blast
  obtain ti where I: "inbound d cols = Inr ti" "vals ti = tabulate2 ?p (inbound_at ?R)"
    using inbound_vals[OF assms(1-3)] by blast
  obtain to where O: "outbound d cols = Inr to" "vals to = tabulate2 ?p (outbound_at ?R)"
    using outbound_vals[OF assms(1-3)] by blast
  obtain tf where F: "influx d cols = Inr tf" "vals tf = [map (influx_at ?p ?R) [0..<?p]]"
    using influx_vals[OF assms(1-3)] by blast
  obtain tg where G: "outflux d cols = Inr tg" "vals tg = [map (outflux_at ?p ?R) [0..<?p]]"
    using outflux_vals[OF assms(1-3)] by blast
  have pairwise: "(vals (tadd (mr P) (mm P)) ! j ! k = 0 \<longrightarrow> vals ti ! j ! k = NaN)
      \<and> (vals (tadd (rm P) (rr P)) ! j ! k = 0 \<longrightarrow> vals to ! j ! k = NaN)"
    if "j < ?p" "k < ?p" for j k
    using that
    by (simp add: tadd_tab[OF P(4,5)] tadd_tab[OF P(3,2)] I(2) O(2) tabulate2_nth
          inbound_at_zero_denominator outbound_at_zero_denominator)
  have per_var: "(nansum_rows (tadd (mr P) (rr P)) ! j = 0
                    \<longrightarrow> vals tf ! 0 ! j = NaN \<and> vals t ! j ! 1 = NaN)
      \<and> (nansum_rows (tadd (rm P) (mm P)) ! j = 0
                    \<longrightarrow> vals tg ! 0 ! j = NaN \<and> vals t ! j ! 2 = NaN)"
    if "j < ?p" for j
    using that
    by (simp add: nansum_rows_tab[OF tadd_tab[OF P(4,2)]] nansum_rows_tab[OF tadd_tab[OF P(3,5)]]
          F(2) G(2) t(2) influx_at_zero_denominator outflux_at_zero_denominator)
  have means: "length (vals t ! j) = 5
      \<and> vals t ! j ! 3 = Fin ((\<Sum>x\<leftarrow>filter (\<lambda>x. x \<noteq> NaN) (vals ti ! j). fin_or_zero x)
                              / (of_nat ?p - 1))
      \<and> vals t ! j ! 4 = Fin ((\<Sum>x\<leftarrow>filter (\<lambda>x. x \<noteq> NaN) (vals to ! j). fin_or_zero x)
                              / (of_nat ?p - 1))"
    if "j < ?p" for j
    using that
    by (simp add: sum_without_nan t(2) I(2) O(2) tabulate2_row comp_def
          row_mean_value[OF inbound_at_unit assms(2)] row_mean_value[OF outbound_at_unit assms(2)])
  have "length (vals t) = ?p" by (simp add: t(2))
  then show ?thesis using P(1) I(1) O(1) F(1) G(1) t(1) pairwise per_var means by blast
qed

theorem zero_denominator_is_nan_witness:
  "wf_data ex_data \<and> 2 \<le> ncols ex_data \<and> labels_ok ex_data None
   \<and> length [Name ''A'', Name ''B'', Name ''C''] = ncols ex_data
   \<and> (\<exists>P ti to tf tg t. md_pairs ex_data None = Inr P
           \<and> inbound ex_data None = Inr ti \<and> outbound ex_data None = Inr to
           \<and> influx ex_data None = Inr tf \<and> outflux ex_data None = Inr tg
           \<and> flux ex_data [Name ''A'', Name ''B'', Name ''C''] = Inr t
           \<and> (\<forall>j<ncols ex_data. \<forall>k<ncols ex_data.
                 (vals (tadd (mr P) (mm P)) ! j ! k = 0 \<longrightarrow> vals ti ! j ! k = NaN)
               \<and> (vals (tadd (rm P) (rr P)) ! j ! k = 0 \<longrightarrow> vals to ! j ! k = NaN))
           \<and> (\<forall>j<ncols ex_data.
                 (nansum_rows (tadd (mr P) (rr P)) ! j = 0
                    \<longrightarrow> vals tf ! 0 ! j = NaN \<and> vals t ! j ! 1 = NaN)
               \<and> (nansum_rows (tadd (rm P) (mm P)) ! j = 0
                    \<longrightarrow> vals tg ! 0 ! j = NaN \<and> vals t ! j ! 2 = NaN))
           \<and> length (vals t) = ncols ex_data
           \<and> (\<forall>j<ncols ex_data. length (vals t ! j) = 5
                \<and> vals t ! j ! 3 = Fin ((\<Sum>x\<leftarrow>filter (\<lambda>x. x \<noteq> NaN) (vals ti ! j). fin_or_zero x)
                                        / (of_nat (ncols ex_data) - 1))
                \<and> vals t ! j ! 4 = Fin ((\<Sum>x\<leftarrow>filter (\<lambda>x. x \<noteq> NaN) (vals to ! j). fin_or_zero x)
                                        / (of_nat (ncols ex_data) - 1))))"
  using zero_denominator_is_nan[OF ex_data_ok ex_data_cols] ex_data_ok ex_data_cols
  by simp

subsection \<open>Sorting positions and looking up labels\<close>










subsection \<open>The pattern table\<close>

























text \<open>
  Claim C4 holds of the intended table and fails of the code: \<open>md_pattern\<close> reorders
  the columns of the data by their missing counts and then labels them with \<open>cols\<close>
  in the original order. In the dataset below the first variable is missing and the
  second is observed; the table shows the first as observed and the second as missing.
\<close>

theorem md_pattern_labels_not_reordered:
  "priv_is_null first_missing = [[True, False]]
   \<and> md_pattern first_missing [Name ''A'', Name ''B'']
     = Inr \<lparr>index = None, columns = Some [Name ''count'', Name ''A'', Name ''B'', Name ''nmis''],
            vals = [[1, 1, 0, 1]]\<rparr>"
  by code_simp

end
